theory Spec2Isabelle
  imports Main "HOL-Library.AList"
begin

section \<open>Python strings\<close>

text \<open>
  Query texts, vocabulary values and SQL texts are Python \<^verbatim>\<open>str\<close> values. They are
  modelled as \<^typ>\<open>string\<close> over the ASCII range: \<^verbatim>\<open>lower\<close>, \<^verbatim>\<open>upper\<close>, \<^verbatim>\<open>strip\<close>,
  \<^verbatim>\<open>\d\<close> and \<^verbatim>\<open>\w\<close> are written as Python has them on ASCII letters, digits and white
  space; every other character is left alone and counts neither as a letter nor as a
  digit. On characters beyond ASCII Python follows the Unicode tables, which are not
  modelled: what is proved about the character classes themselves is stated for ASCII
  texts (\<^verbatim>\<open>ascii_text\<close> below).
\<close>

definition is_upper :: "char \<Rightarrow> bool" where
  "is_upper c = (65 \<le> (of_char c :: nat) \<and> (of_char c :: nat) \<le> 90)"

definition is_lower :: "char \<Rightarrow> bool" where
  "is_lower c = (97 \<le> (of_char c :: nat) \<and> (of_char c :: nat) \<le> 122)"

text \<open>\<^verbatim>\<open>\d\<close> of the \<^verbatim>\<open>re\<close> module on ASCII characters: the decimal digits \<^verbatim>\<open>0\<close> to \<^verbatim>\<open>9\<close>.\<close>

definition is_digit :: "char \<Rightarrow> bool" where
  "is_digit c = (48 \<le> (of_char c :: nat) \<and> (of_char c :: nat) \<le> 57)"

definition is_alpha :: "char \<Rightarrow> bool" where
  "is_alpha c = (is_upper c \<or> is_lower c)"

text \<open>\<^verbatim>\<open>\w\<close> of the \<^verbatim>\<open>re\<close> module on ASCII characters: a letter, a digit or the
  underscore.\<close>

definition is_word_char :: "char \<Rightarrow> bool" where
  "is_word_char c = (is_alpha c \<or> is_digit c \<or> c = CHR ''_'')"

text \<open>White space as \<^verbatim>\<open>str.strip()\<close> sees it: tab, line feed, vertical tab, form feed,
  carriage return, the four separators 28 to 31 and the blank.\<close>

definition is_space :: "char \<Rightarrow> bool" where
  "is_space c = ((9 \<le> (of_char c :: nat) \<and> (of_char c :: nat) \<le> 13) \<or>
                 (28 \<le> (of_char c :: nat) \<and> (of_char c :: nat) \<le> 32))"

definition lower_char :: "char \<Rightarrow> char" where
  "lower_char c = (if is_upper c then char_of ((of_char c :: nat) + 32) else c)"

definition upper_char :: "char \<Rightarrow> char" where
  "upper_char c = (if is_lower c then char_of ((of_char c :: nat) - 32) else c)"

definition lower :: "string \<Rightarrow> string" where
  "lower s = map lower_char s"

definition upper :: "string \<Rightarrow> string" where
  "upper s = map upper_char s"

definition strip :: "string \<Rightarrow> string" where
  "strip s = rev (dropWhile is_space (rev (dropWhile is_space s)))"

text \<open>\<^verbatim>\<open>s.startswith(p)\<close>.\<close>

fun startswith :: "string \<Rightarrow> string \<Rightarrow> bool" where
  "startswith s [] = True"
| "startswith [] (p # ps) = False"
| "startswith (c # cs) (p # ps) = (c = p \<and> startswith cs ps)"

text \<open>\<^verbatim>\<open>needle in hay\<close> for two strings: \<^verbatim>\<open>needle\<close> occurs as a contiguous part of
  \<^verbatim>\<open>hay\<close>.\<close>

fun py_in :: "string \<Rightarrow> string \<Rightarrow> bool" where
  "py_in needle [] = (needle = [])"
| "py_in needle (c # cs) = (startswith (c # cs) needle \<or> py_in needle cs)"

text \<open>\<^verbatim>\<open>s.replace(old, new)\<close> for a non-empty \<^verbatim>\<open>old\<close>: the occurrences of \<^verbatim>\<open>old\<close> are
  replaced from left to right, without overlap. (The source only calls it with the two
  code-fence markers; with an empty \<^verbatim>\<open>old\<close> the model returns the string unchanged.)\<close>

function replace :: "string \<Rightarrow> string \<Rightarrow> string \<Rightarrow> string" where
  "replace old new [] = []"
| "replace old new (c # cs) =
     (if old \<noteq> [] \<and> startswith (c # cs) old
      then new @ replace old new (drop (length old) (c # cs))
      else c # replace old new cs)"
  by pat_completeness auto
termination
  by (relation "measure (\<lambda>(old, new, s). length s)") auto

text \<open>\<^verbatim>\<open>sep.join(xs)\<close>.\<close>

fun join :: "string \<Rightarrow> string list \<Rightarrow> string" where
  "join sep [] = []"
| "join sep [x] = x"
| "join sep (x # y # ys) = x @ sep @ join sep (y # ys)"

text \<open>\<^verbatim>\<open>s.title()\<close>: a letter that follows a letter is lower-cased, any other letter is
  upper-cased. The first argument says whether the previous character is a letter.\<close>

fun title_from :: "bool \<Rightarrow> string \<Rightarrow> string" where
  "title_from prev [] = []"
| "title_from prev (c # cs) =
     (if is_alpha c then (if prev then lower_char c else upper_char c) # title_from True cs
      else c # title_from False cs)"

definition title :: "string \<Rightarrow> string" where
  "title s = title_from False s"

text \<open>\<^verbatim>\<open>str(n)\<close> and \<^verbatim>\<open>int(s)\<close> for decimal numerals.\<close>

definition digit_char :: "nat \<Rightarrow> char" where
  "digit_char d = char_of (48 + d)"

function str_nat :: "nat \<Rightarrow> string" where
  "str_nat n = (if n < 10 then [digit_char n] else str_nat (n div 10) @ [digit_char (n mod 10)])"
  by pat_completeness auto
termination
  by (relation "measure (\<lambda>n. n)") auto

declare str_nat.simps [simp del]

definition str :: "int \<Rightarrow> string" where
  "str i = (if i < 0 then CHR ''-'' # str_nat (nat (- i)) else str_nat (nat i))"

definition digit_val :: "char \<Rightarrow> int" where
  "digit_val c = int (of_char c) - 48"

text \<open>\<^verbatim>\<open>int(s)\<close> on a string of decimal digits, the only strings the year scan passes
  to it.\<close>

definition py_int :: "string \<Rightarrow> int" where
  "py_int s = foldl (\<lambda>n c. 10 * n + digit_val c) 0 s"

section \<open>Text-to-SQL synthesis with bounded retries\<close>

definition MAX_RETRIES :: nat where
  "MAX_RETRIES = 3"

text \<open>
  The generation capability is external. A call of \<^verbatim>\<open>self.model.generate_content(prompt)\<close>
  followed by \<^verbatim>\<open>response.text\<close> either raises or gives a text; the prompt is the same on every
  attempt of one request, so the capability is the sequence of its outcomes, call by call.
\<close>

datatype gen_outcome = Raises | Returns string

type_synonym generator = "nat \<Rightarrow> gen_outcome"

definition backtick :: char where
  "backtick = CHR 0x60"

definition fence_sql :: string where
  "fence_sql = [backtick, backtick, backtick] @ ''sql''"

definition fence :: string where
  "fence = [backtick, backtick, backtick]"

text \<open>The clean-up of the response:
  \<^verbatim>\<open>response.text.strip()\<close>, then the two \<^verbatim>\<open>replace\<close> calls and a second \<^verbatim>\<open>strip\<close>.\<close>

definition clean_response :: "string \<Rightarrow> string" where
  "clean_response text = strip (replace fence [] (replace fence_sql [] (strip text)))"

text \<open>The two checks of \<^verbatim>\<open>generate_sql\<close> that let a cleaned text through:
  \<^verbatim>\<open>not (not sql or len(sql) < 10)\<close> and \<^verbatim>\<open>"SELECT" in sql.upper()\<close>.\<close>

definition shape_ok :: "string \<Rightarrow> bool" where
  "shape_ok sql = (\<not> (sql = [] \<or> length sql < 10) \<and> py_in ''SELECT'' (upper sql))"

text \<open>
  \<^verbatim>\<open>Text2SQLEngine.generate_sql\<close>. The state threaded through the recursion is the number of
  calls made to the generation capability so far; the result is the value returned
  (\<^verbatim>\<open>None\<close> or the SQL text) with the number of calls made when it returns. Every exception
  raised inside the \<^verbatim>\<open>try\<close> block is caught by \<^verbatim>\<open>except Exception\<close> and leads to the same
  recursive call as a rejected text. The pause of \<^verbatim>\<open>RETRY_DELAY\<close> seconds before a retry takes
  time and changes no value; it is left out.
\<close>

function generate_sql :: "generator \<Rightarrow> nat \<Rightarrow> nat \<Rightarrow> string option \<times> nat" where
  "generate_sql gen calls retry_count =
     (if retry_count \<ge> MAX_RETRIES then (None, calls)
      else
        (case gen calls of
           Raises \<Rightarrow> generate_sql gen (Suc calls) (retry_count + 1)
         | Returns text \<Rightarrow>
             (let sql = clean_response text in
              if sql = [] \<or> length sql < 10
              then generate_sql gen (Suc calls) (retry_count + 1)
              else if \<not> py_in ''SELECT'' (upper sql)
              then generate_sql gen (Suc calls) (retry_count + 1)
              else (Some sql, Suc calls))))"
  by pat_completeness auto
termination
  by (relation "measure (\<lambda>(gen, calls, retry_count). MAX_RETRIES - retry_count)") auto

declare generate_sql.simps [simp del]

section \<open>Entity extraction\<close>

text \<open>
  \<^verbatim>\<open>INSTITUTE_ABBREVIATIONS\<close>: the dict literal of the source, as the list of its items in
  source order. Its keys are pairwise different, so a lookup finds the one item of a key.
\<close>

definition INSTITUTE_ABBREVIATIONS :: "(string \<times> string) list" where
  "INSTITUTE_ABBREVIATIONS =
    [(''iit b'', ''Indian Institute of Technology, Bombay''),
     (''iit bombay'', ''Indian Institute of Technology, Bombay''),
     (''iit d'', ''Indian Institute of Technology, Delhi''),
     (''iit delhi'', ''Indian Institute of Technology, Delhi''),
     (''iit k'', ''Indian Institute of Technology, Kharagpur''),
     (''iit kharagpur'', ''Indian Institute of Technology, Kharagpur''),
     (''iit m'', ''Indian Institute of Technology, Madras''),
     (''iit madras'', ''Indian Institute of Technology, Madras''),
     (''iit g'', ''Indian Institute of Technology, Guwahati''),
     (''iit guwahati'', ''Indian Institute of Technology, Guwahati''),
     (''iit r'', ''Indian Institute of Technology, Roorkee''),
     (''iit roorkee'', ''Indian Institute of Technology, Roorkee''),
     (''iit kgp'', ''Indian Institute of Technology, Kharagpur''),
     (''iit kanpur'', ''Indian Institute of Technology, Kanpur''),
     (''iit bhu'', ''Indian Institute of Technology, Varanasi''),
     (''iim a'', ''Indian Institute of Management, Ahmedabad''),
     (''iim ahmedabad'', ''Indian Institute of Management, Ahmedabad''),
     (''iim b'', ''Indian Institute of Management, Bangalore''),
     (''iim bangalore'', ''Indian Institute of Management, Bangalore''),
     (''iim c'', ''Indian Institute of Management, Calcutta''),
     (''iim calcutta'', ''Indian Institute of Management, Calcutta''),
     (''iim l'', ''Indian Institute of Management, Lucknow''),
     (''iim lucknow'', ''Indian Institute of Management, Lucknow''),
     (''mit'', ''Massachusetts Institute of Technology''),
     (''stanford'', ''Stanford University''),
     (''harvard'', ''Harvard University''),
     (''oxford'', ''University of Oxford''),
     (''cambridge'', ''University of Cambridge''),
     (''berkeley'', ''University of California, Berkeley''),
     (''caltech'', ''California Institute of Technology''),
     (''bits'', ''Birla Institute of Technology and Science''),
     (''bits pilani'', ''Birla Institute of Technology and Science, Pilani''),
     (''iiit'', ''International Institute of Information Technology''),
     (''nit'', ''National Institute of Technology'')]"

text \<open>
  The year pattern \<^verbatim>\<open>\b(19\d{2}|20\d{2})\b\<close>. A word boundary lies between two neighbouring
  positions of which exactly one holds a word character; the start and the end of the text
  count as positions without a character.
\<close>

definition is_word_opt :: "char option \<Rightarrow> bool" where
  "is_word_opt c = (case c of None \<Rightarrow> False | Some x \<Rightarrow> is_word_char x)"

definition word_boundary :: "char option \<Rightarrow> char option \<Rightarrow> bool" where
  "word_boundary before after = (is_word_opt before \<noteq> is_word_opt after)"

definition first_char :: "string \<Rightarrow> char option" where
  "first_char s = (case s of [] \<Rightarrow> None | c # cs \<Rightarrow> Some c)"

fun year_token :: "string \<Rightarrow> bool" where
  "year_token (a # b # c # d # rest) =
     ((a = CHR ''1'' \<and> b = CHR ''9'' \<or> a = CHR ''2'' \<and> b = CHR ''0'') \<and> is_digit c \<and> is_digit d)"
| "year_token s = False"

text \<open>The pattern matches at the head of \<^verbatim>\<open>s\<close>, where \<^verbatim>\<open>prev\<close> is the character before
  \<^verbatim>\<open>s\<close> in the text (none at the start of the text).\<close>

definition year_match :: "char option \<Rightarrow> string \<Rightarrow> bool" where
  "year_match prev s =
     (word_boundary prev (first_char s) \<and> year_token s \<and>
      word_boundary (first_char (drop 3 s)) (first_char (drop 4 s)))"

text \<open>\<^verbatim>\<open>re.findall\<close> with this pattern: the text is scanned from left to right; after a match
  the scan goes on behind the four characters matched, otherwise one character further.\<close>

fun findall_years :: "char option \<Rightarrow> string \<Rightarrow> string list" where
  "findall_years prev [] = []"
| "findall_years prev (c # cs) =
     (if year_match prev (c # cs)
      then take 4 (c # cs) # findall_years (first_char (drop 2 cs)) (drop 3 cs)
      else findall_years (Some c) cs)"


text \<open>
  The same years, stated from the words of the specification and without the scan: a
  position of the text starts a year token when the four characters from it on are \<^verbatim>\<open>19\<close> or
  \<^verbatim>\<open>20\<close> and two decimal digits, no word character stands before the first of them and none
  behind the last. The digits and the word characters are listed one by one.
\<close>

definition decimal_digits :: string where
  "decimal_digits = ''0123456789''"

definition word_characters :: string where
  "word_characters = ''abcdefghijklmnopqrstuvwxyzABCDEFGHIJKLMNOPQRSTUVWXYZ0123456789_''"


definition year_token_at :: "string \<Rightarrow> nat \<Rightarrow> bool" where
  "year_token_at q i =
     (i + 4 \<le> length q \<and>
      (take 2 (drop i q) = ''19'' \<or> take 2 (drop i q) = ''20'') \<and>
      q ! (i + 2) \<in> set decimal_digits \<and> q ! (i + 3) \<in> set decimal_digits \<and>
      (i = 0 \<or> q ! (i - 1) \<notin> set word_characters) \<and>
      (i + 4 = length q \<or> q ! (i + 4) \<notin> set word_characters))"




text \<open>
  \<^verbatim>\<open>EntityExtractor._get_db_context\<close>. The eight \<^verbatim>\<open>SELECT DISTINCT\<close> reads of the store either
  all succeed and fill the dict \<^verbatim>\<open>context\<close>, or one of the calls raises; the outcome of the
  \<^verbatim>\<open>try\<close> block is \<^verbatim>\<open>Some context\<close> or \<^verbatim>\<open>None\<close>. The \<^verbatim>\<open>except\<close> branch returns the empty dict.
\<close>

type_synonym db_context = "(string \<times> string list) list"

definition get_db_context :: "db_context option \<Rightarrow> db_context" where
  "get_db_context fetched = (case fetched of None \<Rightarrow> [] | Some context \<Rightarrow> context)"

text \<open>\<^verbatim>\<open>db_context.get(key, [])\<close>.\<close>

definition ctx_get :: "db_context \<Rightarrow> string \<Rightarrow> string list" where
  "ctx_get context key = (case map_of context key of None \<Rightarrow> [] | Some vs \<Rightarrow> vs)"

text \<open>The dict \<^verbatim>\<open>entities\<close> of \<^verbatim>\<open>extract_entities\<close> always has the same nine keys.\<close>

record entities =
  companies :: "string list"
  roles :: "string list"
  cities :: "string list"
  states :: "string list"
  countries :: "string list"
  institutes :: "string list"
  degrees :: "string list"
  domains :: "string list"
  years :: "int list"

text \<open>One of the eight loops
  \<^verbatim>\<open>for v in db_context.get(key, []): if v and v.lower() in query_lower: ... append(v)\<close>.\<close>

definition mentioned :: "db_context \<Rightarrow> string \<Rightarrow> string \<Rightarrow> string list" where
  "mentioned db_context key query_lower =
     filter (\<lambda>v. v \<noteq> [] \<and> py_in (lower v) query_lower) (ctx_get db_context key)"

text \<open>
  \<^verbatim>\<open>EntityExtractor.extract_entities\<close>. \<^verbatim>\<open>list_set\<close> stands for \<^verbatim>\<open>list(set(xs))\<close>: the order in
  which a Python set hands out its elements depends on the hash values of the running
  process, so it is a parameter of the model.
\<close>

definition extract_entities ::
  "(string list \<Rightarrow> string list) \<Rightarrow> db_context option \<Rightarrow> string \<Rightarrow> entities" where
  "extract_entities list_set fetched query =
     (let query_lower = lower query;
          db_context = get_db_context fetched
      in \<lparr> companies = list_set (mentioned db_context ''companies'' query_lower),
            roles = list_set (mentioned db_context ''roles'' query_lower),
            cities = list_set (mentioned db_context ''cities'' query_lower),
            states = list_set (mentioned db_context ''states'' query_lower),
            countries = list_set (mentioned db_context ''countries'' query_lower),
            institutes = list_set
              (filter (\<lambda>abbrev. py_in abbrev query_lower) (map fst INSTITUTE_ABBREVIATIONS) @
               mentioned db_context ''institutes'' query_lower),
            degrees = list_set (mentioned db_context ''degrees'' query_lower),
            domains = list_set (mentioned db_context ''domains'' query_lower),
            years = map py_int (findall_years None query) \<rparr>)"

text \<open>What \<^verbatim>\<open>list(set(xs))\<close> guarantees whatever the hash values: the elements of
  \<^verbatim>\<open>xs\<close>, each once.\<close>

definition is_list_set :: "(string list \<Rightarrow> string list) \<Rightarrow> bool" where
  "is_list_set list_set = (\<forall>xs. distinct (list_set xs) \<and> set (list_set xs) = set xs)"

section \<open>Approximate matching\<close>

definition SIMILARITY_THRESHOLD :: int where
  "SIMILARITY_THRESHOLD = 75"

text \<open>
  \<^verbatim>\<open>fuzz.token_set_ratio\<close> belongs to the fuzzywuzzy library: it is a parameter, a score from
  0 to 100 for a query and a choice. \<^verbatim>\<open>process.extract(query, choices, scorer, limit)\<close> of the
  same library scores every choice and returns the \<^verbatim>\<open>limit\<close> best pairs of choice and score,
  best first, choices of equal score in the order of \<^verbatim>\<open>choices\<close>.
\<close>

type_synonym scorer = "string \<Rightarrow> string \<Rightarrow> int"

definition process_extract :: "scorer \<Rightarrow> string \<Rightarrow> string list \<Rightarrow> nat \<Rightarrow> (string \<times> int) list" where
  "process_extract score query choices limit =
     take limit (sort_key (\<lambda>(choice, s). - s) (map (\<lambda>choice. (choice, score query choice)) choices))"

text \<open>\<^verbatim>\<open>FuzzyMatcher.match_entity\<close>. The dict comprehension \<^verbatim>\<open>{v.lower(): v for v in db_values}\<close>
  keeps, for a lower-cased form, the last value that has it.\<close>

definition match_entity ::
  "(string list \<Rightarrow> string list) \<Rightarrow> scorer \<Rightarrow> int \<Rightarrow> string \<Rightarrow> string list \<Rightarrow> string list" where
  "match_entity list_set score threshold user_input db_values =
     (if user_input = [] \<or> db_values = [] then []
      else
        (let db_values' = filter (\<lambda>v. v \<noteq> []) db_values in
         if db_values' = [] then []
         else
           (let matches = process_extract score (lower user_input) (map lower db_values') 10;
                db_values_lower = map_of (rev (map (\<lambda>v. (lower v, v)) db_values'));
                matched_values =
                  map (\<lambda>(m, s). case db_values_lower (lower m) of None \<Rightarrow> m | Some original \<Rightarrow> original)
                    (filter (\<lambda>(m, s). s \<ge> threshold) matches)
            in list_set matched_values)))"

section \<open>Normalization\<close>

type_synonym normalization_map = "(string \<times> string list) list"

text \<open>\<^verbatim>\<open>FuzzyMatcher.normalize_institutes\<close>. The dict \<^verbatim>\<open>result\<close> is the list of its items in
  insertion order; \<^verbatim>\<open>result[institute] = ...\<close> is \<^const>\<open>AList.update\<close>.\<close>

definition normalize_institutes ::
  "(string list \<Rightarrow> string list) \<Rightarrow> scorer \<Rightarrow> int \<Rightarrow> db_context option \<Rightarrow> string list \<Rightarrow> normalization_map" where
  "normalize_institutes list_set score threshold fetched institute_inputs =
     (let db_institutes = ctx_get (get_db_context fetched) ''institutes'' in
      foldl (\<lambda>result institute.
          (let institute_lower = lower institute;
               matches =
                 (case map_of INSTITUTE_ABBREVIATIONS institute_lower of
                    Some mapped_value \<Rightarrow> [mapped_value]
                  | None \<Rightarrow>
                      (let fuzzy_matches = match_entity list_set score threshold institute db_institutes
                       in if fuzzy_matches \<noteq> [] then [institute] @ fuzzy_matches else []))
           in if matches \<noteq> [] then AList.update institute (list_set matches) result else result))
        [] institute_inputs)"

text \<open>
  The seven functions \<^verbatim>\<open>normalize_companies\<close>, \<^verbatim>\<open>normalize_roles\<close>, \<^verbatim>\<open>normalize_cities\<close>,
  \<^verbatim>\<open>normalize_states\<close>, \<^verbatim>\<open>normalize_countries\<close>, \<^verbatim>\<open>normalize_domains\<close> and \<^verbatim>\<open>normalize_degrees\<close>
  have the same body and differ in the key of the context they read.
\<close>

definition normalize_by_key ::
  "string \<Rightarrow> (string list \<Rightarrow> string list) \<Rightarrow> scorer \<Rightarrow> int \<Rightarrow> db_context option \<Rightarrow> string list \<Rightarrow>
   normalization_map" where
  "normalize_by_key key list_set score threshold fetched inputs =
     (let db_values = ctx_get (get_db_context fetched) key in
      foldl (\<lambda>result x.
          (let fuzzy_matches = match_entity list_set score threshold x db_values
           in if fuzzy_matches \<noteq> [] then AList.update x ([x] @ fuzzy_matches) result else result))
        [] inputs)"

definition normalize_companies ::
  "(string list \<Rightarrow> string list) \<Rightarrow> scorer \<Rightarrow> int \<Rightarrow> db_context option \<Rightarrow> string list \<Rightarrow> normalization_map" where
  "normalize_companies = normalize_by_key ''companies''"

definition normalize_roles ::
  "(string list \<Rightarrow> string list) \<Rightarrow> scorer \<Rightarrow> int \<Rightarrow> db_context option \<Rightarrow> string list \<Rightarrow> normalization_map" where
  "normalize_roles = normalize_by_key ''roles''"

definition normalize_cities ::
  "(string list \<Rightarrow> string list) \<Rightarrow> scorer \<Rightarrow> int \<Rightarrow> db_context option \<Rightarrow> string list \<Rightarrow> normalization_map" where
  "normalize_cities = normalize_by_key ''cities''"

definition normalize_states ::
  "(string list \<Rightarrow> string list) \<Rightarrow> scorer \<Rightarrow> int \<Rightarrow> db_context option \<Rightarrow> string list \<Rightarrow> normalization_map" where
  "normalize_states = normalize_by_key ''states''"

definition normalize_countries ::
  "(string list \<Rightarrow> string list) \<Rightarrow> scorer \<Rightarrow> int \<Rightarrow> db_context option \<Rightarrow> string list \<Rightarrow> normalization_map" where
  "normalize_countries = normalize_by_key ''countries''"

definition normalize_domains ::
  "(string list \<Rightarrow> string list) \<Rightarrow> scorer \<Rightarrow> int \<Rightarrow> db_context option \<Rightarrow> string list \<Rightarrow> normalization_map" where
  "normalize_domains = normalize_by_key ''domains''"

definition normalize_degrees ::
  "(string list \<Rightarrow> string list) \<Rightarrow> scorer \<Rightarrow> int \<Rightarrow> db_context option \<Rightarrow> string list \<Rightarrow> normalization_map" where
  "normalize_degrees = normalize_by_key ''degrees''"

text \<open>The dict comprehension \<^verbatim>\<open>{str(year): [str(year)] for year in years}\<close>.\<close>

definition normalize_years :: "int list \<Rightarrow> normalization_map" where
  "normalize_years ys = foldl (\<lambda>result year. AList.update (str year) [str year] result) [] ys"

text \<open>
  \<^verbatim>\<open>FuzzyMatcher.normalize_all\<close>. Each normalizer it calls reads the store anew; \<^verbatim>\<open>fetch key\<close> is
  the outcome of the read made by the normalizer of the category \<^verbatim>\<open>key\<close>. The keys are set in
  the order of the nine \<^verbatim>\<open>if\<close> statements, each at most once.
\<close>

type_synonym normalized = "(string \<times> normalization_map) list"

definition normalize_all ::
  "(string list \<Rightarrow> string list) \<Rightarrow> scorer \<Rightarrow> int \<Rightarrow> (string \<Rightarrow> db_context option) \<Rightarrow> entities \<Rightarrow> normalized" where
  "normalize_all list_set score threshold fetch extracted =
     (if companies extracted \<noteq> []
      then [(''companies'', normalize_companies list_set score threshold (fetch ''companies'') (companies extracted))]
      else []) @
     (if roles extracted \<noteq> []
      then [(''roles'', normalize_roles list_set score threshold (fetch ''roles'') (roles extracted))]
      else []) @
     (if cities extracted \<noteq> []
      then [(''cities'', normalize_cities list_set score threshold (fetch ''cities'') (cities extracted))]
      else []) @
     (if states extracted \<noteq> []
      then [(''states'', normalize_states list_set score threshold (fetch ''states'') (states extracted))]
      else []) @
     (if countries extracted \<noteq> []
      then [(''countries'', normalize_countries list_set score threshold (fetch ''countries'') (countries extracted))]
      else []) @
     (if institutes extracted \<noteq> []
      then [(''institutes'', normalize_institutes list_set score threshold (fetch ''institutes'') (institutes extracted))]
      else []) @
     (if degrees extracted \<noteq> []
      then [(''degrees'', normalize_degrees list_set score threshold (fetch ''degrees'') (degrees extracted))]
      else []) @
     (if domains extracted \<noteq> []
      then [(''domains'', normalize_domains list_set score threshold (fetch ''domains'') (domains extracted))]
      else []) @
     (if years extracted \<noteq> []
      then [(''years'', normalize_years (years extracted))]
      else [])"

section \<open>Query normalization and hints\<close>

definition entity_types :: "string list" where
  "entity_types =
     [''companies'', ''roles'', ''cities'', ''states'', ''countries'', ''institutes'', ''degrees'', ''domains'']"

text \<open>The arrow of the hint text, U+2192, as its three UTF-8 bytes.\<close>

definition arrow :: string where
  "arrow = [CHR 0xE2, CHR 0x86, CHR 0x92]"

definition no_entities_found :: string where
  "no_entities_found = ''No entities found''"

text \<open>\<^verbatim>\<open>QueryNormalizer._build_hints\<close>; the source does not read its first argument.\<close>

definition build_hints :: "entities \<Rightarrow> normalized \<Rightarrow> string" where
  "build_hints extracted normalized =
     (let hints =
        concat (map (\<lambda>entity_type.
          (case map_of normalized entity_type of
             None \<Rightarrow> []
           | Some m \<Rightarrow>
               if m \<noteq> []
               then map (\<lambda>(original, matches).
                      title entity_type @ '': '' @ original @ '' '' @ arrow @ '' '' @ join '', '' matches) m
               else [])) entity_types)
      in if hints \<noteq> [] then join '' | '' hints else no_entities_found)"

text \<open>The dict returned by \<^verbatim>\<open>normalize_query\<close>; its keys \<^verbatim>\<open>original_query\<close>,
  \<^verbatim>\<open>extracted_entities\<close> and \<^verbatim>\<open>normalized_entities\<close> carry the prefix \<^verbatim>\<open>nq_\<close> here, since the
  response of the processor has keys of the same names.\<close>

record normalization =
  nq_original_query :: string
  nq_extracted_entities :: entities
  nq_normalized_entities :: normalized
  normalization_hints :: string

definition normalize_query ::
  "(string list \<Rightarrow> string list) \<Rightarrow> scorer \<Rightarrow> int \<Rightarrow> db_context option \<Rightarrow> (string \<Rightarrow> db_context option) \<Rightarrow>
   string \<Rightarrow> normalization" where
  "normalize_query list_set score threshold fetched fetch user_query =
     (let extracted = extract_entities list_set fetched user_query;
          normalized = normalize_all list_set score threshold fetch extracted;
          hints = build_hints extracted normalized
      in \<lparr> nq_original_query = user_query,
            nq_extracted_entities = extracted,
            nq_normalized_entities = normalized,
            normalization_hints = hints \<rparr>)"

section \<open>The query processor\<close>

text \<open>A result row maps column names to values; values are kept as text.\<close>

type_synonym row = "(string \<times> string) list"

text \<open>
  The store as the processor uses it: \<^verbatim>\<open>explain_ok sql\<close> says that \<^verbatim>\<open>EXPLAIN sql\<close> ran without
  an exception, \<^verbatim>\<open>run_query sql\<close> gives the rows of \<^verbatim>\<open>sql\<close> or \<^verbatim>\<open>None\<close> when the execution
  raises, \<^verbatim>\<open>elapsed_ms sql\<close> is the time \<^verbatim>\<open>execute_sql\<close> measures around it.
\<close>

record store =
  explain_ok :: "string \<Rightarrow> bool"
  run_query :: "string \<Rightarrow> row list option"
  elapsed_ms :: "string \<Rightarrow> int"

text \<open>\<^verbatim>\<open>Text2SQLEngine.validate_sql\<close>: \<^verbatim>\<open>True\<close> after the dry run, \<^verbatim>\<open>False\<close> on any exception.\<close>

definition validate_sql :: "store \<Rightarrow> string \<Rightarrow> bool" where
  "validate_sql db sql = explain_ok db sql"

text \<open>\<^verbatim>\<open>Text2SQLEngine.execute_sql\<close>: the rows, or \<^verbatim>\<open>None\<close> on any exception, with the time
  measured in both cases.\<close>

definition execute_sql :: "store \<Rightarrow> string \<Rightarrow> row list option \<times> int" where
  "execute_sql db sql =
     (case run_query db sql of
        Some rows \<Rightarrow> (Some rows, elapsed_ms db sql)
      | None \<Rightarrow> (None, elapsed_ms db sql))"

text \<open>The values of the entities dict are lists of strings, or of integers for the years.\<close>

datatype entity_values = Names "string list" | Numbers "int list"

definition entities_dict :: "entities \<Rightarrow> (string \<times> entity_values) list" where
  "entities_dict e =
     [(''companies'', Names (companies e)), (''roles'', Names (roles e)),
      (''cities'', Names (cities e)), (''states'', Names (states e)),
      (''countries'', Names (countries e)), (''institutes'', Names (institutes e)),
      (''degrees'', Names (degrees e)), (''domains'', Names (domains e)),
      (''years'', Numbers (years e))]"

record response =
  success :: bool
  original_query :: string
  extracted_entities :: "(string \<times> entity_values) list"
  normalized_entities :: normalized
  generated_sql :: "string option"
  results :: "row list"
  results_count :: nat
  execution_time_ms :: int
  total_time_ms :: int
  error_message :: "string option"

text \<open>\<^verbatim>\<open>QueryProcessor._failed_response\<close>.\<close>

definition failed_response :: "string \<Rightarrow> string \<Rightarrow> response" where
  "failed_response user_query message =
     \<lparr> success = False,
       original_query = user_query,
       extracted_entities = [],
       normalized_entities = [],
       generated_sql = None,
       results = [],
       results_count = 0,
       execution_time_ms = 0,
       total_time_ms = 0,
       error_message = Some message \<rparr>"

text \<open>
  \<^verbatim>\<open>QueryProcessor._log_query\<close> writes one record and one linkage row per result that has a
  \<^verbatim>\<open>member_id\<close>; an exception while writing is caught and printed. The model keeps what the
  call hands to the store (the time stamp, read from the clock, is left out).
\<close>

record log_entry =
  log_original_query :: string
  log_generated_sql :: "string option"
  log_results_count :: nat
  log_execution_time_ms :: int
  log_error_message :: "string option"
  log_member_ids :: "string list"

definition log_query ::
  "string \<Rightarrow> string option \<Rightarrow> int \<Rightarrow> string option \<Rightarrow> row list option \<Rightarrow> log_entry" where
  "log_query user_query sql execution_time error rows =
     \<lparr> log_original_query = user_query,
       log_generated_sql = sql,
       log_results_count = (case rows of None \<Rightarrow> 0 | Some rs \<Rightarrow> length rs),
       log_execution_time_ms = execution_time,
       log_error_message = error,
       log_member_ids =
         (case rows of
            None \<Rightarrow> []
          | Some rs \<Rightarrow>
              concat (map (\<lambda>result.
                (case map_of result ''member_id'' of
                   None \<Rightarrow> []
                 | Some member_id \<Rightarrow> if member_id \<noteq> [] then [member_id] else [])) rs)) \<rparr>"

definition msg_generation_failed :: string where
  "msg_generation_failed = ''Failed to generate SQL query''"

definition msg_invalid_sql :: string where
  "msg_invalid_sql = ''Generated SQL is invalid''"

definition msg_execution_failed :: string where
  "msg_execution_failed = ''SQL execution failed''"

text \<open>Everything outside the processor that one request depends on.\<close>

record world =
  w_list_set :: "string list \<Rightarrow> string list"
  w_score :: scorer
  w_fetched_by_extractor :: "db_context option"
  w_fetched_by_normalizer :: "string \<Rightarrow> db_context option"
  w_generator :: generator
  w_db :: store
  w_total_ms :: int

text \<open>
  \<^verbatim>\<open>QueryProcessor.process_query\<close>, returning the response together with the call of
  \<^verbatim>\<open>_log_query\<close> it makes. \<^verbatim>\<open>if not sql\<close> holds for \<^verbatim>\<open>None\<close> and for the empty text.
\<close>

definition process_query :: "world \<Rightarrow> string \<Rightarrow> response \<times> log_entry" where
  "process_query w user_query =
     (let normalization_result =
            normalize_query (w_list_set w) (w_score w) SIMILARITY_THRESHOLD
              (w_fetched_by_extractor w) (w_fetched_by_normalizer w) user_query;
          extracted = nq_extracted_entities normalization_result;
          normalized = nq_normalized_entities normalization_result;
          sql = fst (generate_sql (w_generator w) 0 0)
      in
        (case sql of
           None \<Rightarrow>
             (failed_response user_query msg_generation_failed,
              log_query user_query None 0 (Some msg_generation_failed) None)
         | Some sql_text \<Rightarrow>
             if sql_text = []
             then (failed_response user_query msg_generation_failed,
                   log_query user_query None 0 (Some msg_generation_failed) None)
             else if \<not> validate_sql (w_db w) sql_text
             then (failed_response user_query msg_invalid_sql,
                   log_query user_query sql 0 (Some msg_invalid_sql) None)
             else
               (case execute_sql (w_db w) sql_text of
                  (None, execution_time) \<Rightarrow>
                    (failed_response user_query msg_execution_failed,
                     log_query user_query sql execution_time (Some msg_execution_failed) None)
                | (Some rows, execution_time) \<Rightarrow>
                    (\<lparr> success = True,
                       original_query = user_query,
                       extracted_entities = entities_dict extracted,
                       normalized_entities = normalized,
                       generated_sql = sql,
                       results = rows,
                       results_count = length rows,
                       execution_time_ms = execution_time,
                       total_time_ms = w_total_ms w,
                       error_message = None \<rparr>,
                     log_query user_query sql execution_time None (Some rows)))))"

text \<open>The three ways in which a stage of \<^verbatim>\<open>process_query\<close> fails, read off its three early
  returns: no SQL text after the retries, the dry run refuses the text, the execution
  returns no rows object.\<close>

definition generation_exhausted :: "world \<Rightarrow> bool" where
  "generation_exhausted w =
     (case fst (generate_sql (w_generator w) 0 0) of None \<Rightarrow> True | Some sql_text \<Rightarrow> sql_text = [])"

definition validation_rejected :: "world \<Rightarrow> bool" where
  "validation_rejected w =
     (case fst (generate_sql (w_generator w) 0 0) of
        None \<Rightarrow> False
      | Some sql_text \<Rightarrow> sql_text \<noteq> [] \<and> \<not> validate_sql (w_db w) sql_text)"

definition execution_failed :: "world \<Rightarrow> bool" where
  "execution_failed w =
     (case fst (generate_sql (w_generator w) 0 0) of
        None \<Rightarrow> False
      | Some sql_text \<Rightarrow>
          sql_text \<noteq> [] \<and> validate_sql (w_db w) sql_text \<and> fst (execute_sql (w_db w) sql_text) = None)"

section \<open>Concrete inputs\<close>

text \<open>A generation capability whose every answer is the eight characters \<^verbatim>\<open>SELECT 1\<close>.\<close>

definition short_generator :: generator where
  "short_generator k = Returns ''SELECT 1''"

text \<open>A query in a fenced block, the usual form of an answer that the clean-up is there for.\<close>

definition fenced_text :: string where
  "fenced_text = fence_sql @ [CHR 0x0A] @ ''SELECT * FROM members'' @ [CHR 0x0A] @ fence"

text \<open>A generation capability that raises twice and then answers.\<close>

definition third_time_generator :: "string \<Rightarrow> generator" where
  "third_time_generator text k = (if k < 2 then Raises else Returns text)"

text \<open>A score in the manner of the token-set ratio on the inputs used below: 100 when the
  query occurs in the choice, 0 otherwise.\<close>

definition containment_score :: scorer where
  "containment_score query choice = (if py_in query choice then 100 else 0)"

text \<open>Stores: one whose dry run refuses every text, one whose dry run accepts and whose
  execution raises after 12 ms, and one that returns a single row after 5 ms.\<close>

definition refusing_store :: store where
  "refusing_store = \<lparr> explain_ok = (\<lambda>sql. False), run_query = (\<lambda>sql. None), elapsed_ms = (\<lambda>sql. 0) \<rparr>"

definition raising_store :: store where
  "raising_store = \<lparr> explain_ok = (\<lambda>sql. True), run_query = (\<lambda>sql. None), elapsed_ms = (\<lambda>sql. 12) \<rparr>"

text \<open>A world around a generation capability and a store: sets hand out their elements in
  the order \<^const>\<open>remdups\<close> leaves, the vocabulary cannot be read, the request takes 40 ms.\<close>

definition world_of :: "generator \<Rightarrow> store \<Rightarrow> world" where
  "world_of g s =
     \<lparr> w_list_set = remdups, w_score = containment_score, w_fetched_by_extractor = None,
       w_fetched_by_normalizer = (\<lambda>key. None), w_generator = g, w_db = s, w_total_ms = 40 \<rparr>"

definition members_generator :: generator where
  "members_generator k = Returns ''SELECT * FROM members''"

text \<open>Eleven roles that all hold the word of the query \<^verbatim>\<open>engineer\<close>.\<close>

definition engineer_roles :: "string list" where
  "engineer_roles =
     [''Software Engineer'', ''Data Engineer'', ''Test Engineer'', ''Site Reliability Engineer'',
      ''Hardware Engineer'', ''QA Engineer'', ''DevOps Engineer'', ''Sales Engineer'',
      ''Security Engineer'', ''Network Engineer'', ''Civil Engineer'']"

text \<open>A set order other than that of \<^const>\<open>remdups\<close>: the elements in reverse.\<close>

definition reversed_set :: "string list \<Rightarrow> string list" where
  "reversed_set xs = rev (remdups xs)"


text \<open>A score at the threshold for one choice and one below it for another.\<close>

definition boundary_score :: scorer where
  "boundary_score query choice = (if choice = ''alpha'' then 75 else if choice = ''beta'' then 74 else 0)"

section \<open>Properties of the string functions\<close>

lemma length_strip_le: "length (strip s) \<le> length s"
proof -
  have "length (strip s) = length (dropWhile is_space (rev (dropWhile is_space s)))"
    by (simp add: strip_def)
  also have "\<dots> \<le> length (rev (dropWhile is_space s))"
    by (rule length_dropWhile_le)
  also have "\<dots> \<le> length s"
    by (simp add: length_dropWhile_le)
  finally show ?thesis .
qed

lemma length_replace_le: "new = [] \<Longrightarrow> length (replace old new s) \<le> length s"
proof (induction old new s rule: replace.induct)
  case (1 old new)
  show ?case by simp
next
  case (2 old new c cs)
  show ?case
  proof (cases "old \<noteq> [] \<and> startswith (c # cs) old")
    case True
    have "length (replace old new (drop (length old) (c # cs))) \<le> length (drop (length old) (c # cs))"
      using "2.IH"(1) [OF True] "2.prems" by simp
    also have "\<dots> \<le> length (c # cs)"
      by simp
    finally show ?thesis
      using True "2.prems" by simp
  next
    case False
    then show ?thesis
      using "2.IH"(2) "2.prems" by auto
  qed
qed

lemma length_replace_empty_le: "length (replace old [] s) \<le> length s"
  by (rule length_replace_le) simp

lemma length_clean_response_le: "length (clean_response text) \<le> length text"
proof -
  have "length (clean_response text) \<le> length (replace fence [] (replace fence_sql [] (strip text)))"
    unfolding clean_response_def by (rule length_strip_le)
  also have "\<dots> \<le> length (replace fence_sql [] (strip text))"
    by (rule length_replace_empty_le)
  also have "\<dots> \<le> length (strip text)"
    by (rule length_replace_empty_le)
  also have "\<dots> \<le> length text"
    by (rule length_strip_le)
  finally show ?thesis .
qed

section \<open>Synthesis: exhaustion and retry\<close>

lemma generate_sql_exhausted:
  "(\<forall>k. \<exists>t. gen k = Returns t \<and> length t < 10) \<Longrightarrow> retry_count \<le> MAX_RETRIES \<Longrightarrow>
   generate_sql gen calls retry_count = (None, calls + (MAX_RETRIES - retry_count))"
proof (induction gen calls retry_count rule: generate_sql.induct)
  case (1 gen calls retry_count)
  show ?case
  proof (cases "retry_count \<ge> MAX_RETRIES")
    case True
    then have eq: "retry_count = MAX_RETRIES"
      using "1.prems"(2) by simp
    show ?thesis
      unfolding eq by (subst generate_sql.simps) simp
  next
    case False
    obtain t where t: "gen calls = Returns t" "length t < 10"
      using "1.prems"(1) by blast
    have len: "length (clean_response t) < 10"
      using length_clean_response_le [of t] t(2) by simp
    have "generate_sql gen calls retry_count = generate_sql gen (Suc calls) (retry_count + 1)"
      using False t(1) len by (simp add: generate_sql.simps [of gen calls retry_count] Let_def)
    also have "\<dots> = (None, Suc calls + (MAX_RETRIES - (retry_count + 1)))"
      using "1.IH"(2) [OF False t(1) refl] "1.prems"(1) len False by simp
    also have "\<dots> = (None, calls + (MAX_RETRIES - retry_count))"
      using False by simp
    finally show ?thesis .
  qed
qed

text \<open>
  C3. If every call of the generation capability returns a text of fewer than 10
  characters, \<^verbatim>\<open>generate_sql\<close> (started with \<^verbatim>\<open>retry_count = 0\<close>) returns \<^verbatim>\<open>None\<close>, having
  called the capability exactly \<^verbatim>\<open>MAX_RETRIES = 3\<close> times. The function is total and its
  result is a value: no exception leaves it.
\<close>

theorem generate_sql_exhaustion:
  assumes "\<forall>k. \<exists>t. gen k = Returns t \<and> length t < 10"
  shows "generate_sql gen 0 0 = (None, MAX_RETRIES) \<and> MAX_RETRIES = 3"
  using generate_sql_exhausted [OF assms, of 0 0] by (simp add: MAX_RETRIES_def)

theorem generate_sql_exhaustion_witness:
  "(\<forall>k. \<exists>t. short_generator k = Returns t \<and> length t < 10) \<and>
   generate_sql short_generator 0 0 = (None, 3)"
proof -
  have short: "\<forall>k. \<exists>t. short_generator k = Returns t \<and> length t < 10"
    by (simp add: short_generator_def)
  show ?thesis
    using short generate_sql_exhaustion [OF short] by simp
qed

lemma startswith_append: "startswith s (p @ q) \<Longrightarrow> startswith s p"
  by (induction s p rule: startswith.induct) auto

lemma py_in_append: "py_in (p @ q) s \<Longrightarrow> py_in p s"
  by (induction s) (auto dest: startswith_append)

lemma replace_absent: "\<not> py_in old s \<Longrightarrow> replace old new s = s"
  by (induction s) auto

lemma clean_response_clean:
  assumes "strip text = text" and "\<not> py_in fence text"
  shows "clean_response text = text"
proof -
  have "\<not> py_in fence_sql text"
    using assms(2) py_in_append [of fence "''sql''" "text"] by (auto simp: fence_sql_def fence_def)
  then have "replace fence_sql [] text = text"
    by (rule replace_absent)
  moreover have "replace fence [] text = text"
    using assms(2) by (rule replace_absent)
  ultimately show ?thesis
    using assms(1) by (simp add: clean_response_def)
qed

lemma generate_sql_accepts:
  assumes "retry_count < MAX_RETRIES" and "gen calls = Returns text" and "shape_ok (clean_response text)"
  shows "generate_sql gen calls retry_count = (Some (clean_response text), Suc calls)"
  using assms by (simp add: generate_sql.simps [of gen calls retry_count] shape_ok_def Let_def)

lemma generate_sql_raises:
  assumes "retry_count < MAX_RETRIES" and "gen calls = Raises"
  shows "generate_sql gen calls retry_count = generate_sql gen (Suc calls) (retry_count + 1)"
  using assms by (simp add: generate_sql.simps [of gen calls retry_count])

text \<open>
  C6, as amended. If the generation capability raises on its first two calls and its
  third call returns a text whose cleaned form (stripped, the code-fence markers removed)
  passes the shape checks, \<^verbatim>\<open>generate_sql\<close> returns that cleaned form after exactly 3
  calls. The value returned is the third call's text itself when the clean-up has nothing
  to remove: \<^verbatim>\<open>strip\<close> leaves the text unchanged and it holds no fence marker.
\<close>

theorem generate_sql_third_attempt:
  assumes "gen 0 = Raises" and "gen 1 = Raises" and "gen 2 = Returns text"
    and "shape_ok (clean_response text)"
  shows "generate_sql gen 0 0 = (Some (clean_response text), 3) \<and>
         (strip text = text \<and> \<not> py_in fence text \<longrightarrow> generate_sql gen 0 0 = (Some text, 3))"
proof -
  have "generate_sql gen 0 0 = generate_sql gen 1 1"
    using generate_sql_raises [of 0 gen 0] assms(1) by (simp add: MAX_RETRIES_def)
  also have "\<dots> = generate_sql gen 2 2"
    using generate_sql_raises [of 1 gen 1] assms(2) by (simp add: MAX_RETRIES_def numeral_2_eq_2)
  also have "\<dots> = (Some (clean_response text), 3)"
    using generate_sql_accepts [of 2 gen 2 "text"] assms(3,4) by (simp add: MAX_RETRIES_def numeral_3_eq_3)
  finally have main: "generate_sql gen 0 0 = (Some (clean_response text), 3)" .
  then show ?thesis
    using clean_response_clean [of "text"] by auto
qed

lemma shape_ok_select_members: "shape_ok ''SELECT * FROM members''"
  by code_simp

lemma clean_select_members: "clean_response ''SELECT * FROM members'' = ''SELECT * FROM members''"
  by code_simp

theorem generate_sql_third_attempt_witness:
  "third_time_generator ''SELECT * FROM members'' 0 = Raises \<and>
   third_time_generator ''SELECT * FROM members'' 1 = Raises \<and>
   third_time_generator ''SELECT * FROM members'' 2 = Returns ''SELECT * FROM members'' \<and>
   shape_ok (clean_response ''SELECT * FROM members'') \<and>
   generate_sql (third_time_generator ''SELECT * FROM members'') 0 0 = (Some ''SELECT * FROM members'', 3)"
proof -
  have g: "third_time_generator ''SELECT * FROM members'' 0 = Raises"
    "third_time_generator ''SELECT * FROM members'' 1 = Raises"
    "third_time_generator ''SELECT * FROM members'' 2 = Returns ''SELECT * FROM members''"
    by (simp_all add: third_time_generator_def)
  have s: "shape_ok (clean_response ''SELECT * FROM members'')"
    by (simp only: clean_select_members shape_ok_select_members)
  show ?thesis
    using generate_sql_third_attempt [OF g s] g s by (simp add: clean_select_members)
qed

text \<open>
  C6 as stated fails: the third call returns a fenced text that passes the shape checks
  as it is and after the clean-up, and \<^verbatim>\<open>generate_sql\<close> returns the cleaned text, which is
  not the text of the third call.
\<close>

theorem generate_sql_third_text_counterexample:
  "third_time_generator fenced_text 0 = Raises \<and>
   third_time_generator fenced_text 1 = Raises \<and>
   third_time_generator fenced_text 2 = Returns fenced_text \<and>
   shape_ok fenced_text \<and>
   shape_ok (clean_response fenced_text) \<and>
   generate_sql (third_time_generator fenced_text) 0 0 = (Some ''SELECT * FROM members'', 3) \<and>
   fst (generate_sql (third_time_generator fenced_text) 0 0) \<noteq> Some fenced_text"
  by code_simp

section \<open>The processor: shape of a failed response\<close>

text \<open>
  C1. Whenever a stage of the pipeline fails (the SQL generation is exhausted, the
  validation rejects the text, or the execution fails), the response of \<^verbatim>\<open>process_query\<close>
  has \<^verbatim>\<open>success = False\<close>, \<^verbatim>\<open>results_count = 0\<close>, \<^verbatim>\<open>results = []\<close> and an error message that is
  one of the three defined messages, the one that belongs to the stage.
\<close>

theorem process_query_failure_shape:
  assumes "generation_exhausted w \<or> validation_rejected w \<or> execution_failed w"
  shows "success (fst (process_query w q)) = False \<and>
         results_count (fst (process_query w q)) = 0 \<and>
         results (fst (process_query w q)) = [] \<and>
         error_message (fst (process_query w q)) =
           Some (if generation_exhausted w then ''Failed to generate SQL query''
                 else if validation_rejected w then ''Generated SQL is invalid''
                 else ''SQL execution failed'')"
  using assms
  by (auto simp: process_query_def generation_exhausted_def validation_rejected_def
      execution_failed_def failed_response_def msg_generation_failed_def msg_invalid_sql_def
      msg_execution_failed_def Let_def
      split: option.splits prod.splits if_splits)

lemma generate_short: "generate_sql short_generator 0 0 = (None, 3)"
  by code_simp

theorem process_query_failure_shape_witness:
  "generation_exhausted (world_of short_generator refusing_store) \<and>
   success (fst (process_query (world_of short_generator refusing_store) ''Who studied at IIT B?'')) = False \<and>
   results_count (fst (process_query (world_of short_generator refusing_store) ''Who studied at IIT B?'')) = 0 \<and>
   results (fst (process_query (world_of short_generator refusing_store) ''Who studied at IIT B?'')) = [] \<and>
   error_message (fst (process_query (world_of short_generator refusing_store) ''Who studied at IIT B?'')) =
     Some ''Failed to generate SQL query''"
proof -
  have ex: "generation_exhausted (world_of short_generator refusing_store)"
    by (simp add: generation_exhausted_def world_of_def generate_short)
  then have "generation_exhausted (world_of short_generator refusing_store) \<or>
      validation_rejected (world_of short_generator refusing_store) \<or>
      execution_failed (world_of short_generator refusing_store)"
    by simp
  from process_query_failure_shape [OF this, of "''Who studied at IIT B?''"] ex
  show ?thesis by simp
qed

text \<open>
  C9. When a request fails at the validation or at the execution stage, the response has
  \<^verbatim>\<open>generated_sql = None\<close>, \<^verbatim>\<open>execution_time_ms = 0\<close>, \<^verbatim>\<open>total_time_ms = 0\<close> and empty maps of
  extracted and normalized entities, although the SQL text, the measured time and the
  entities exist at that point (the dict of extracted entities always has its nine keys):
  the SQL text and the measured time go to \<^verbatim>\<open>_log_query\<close> only.
\<close>

theorem process_query_failure_drops_values:
  assumes "validation_rejected w \<or> execution_failed w"
  shows "generated_sql (fst (process_query w q)) = None \<and>
         execution_time_ms (fst (process_query w q)) = 0 \<and>
         total_time_ms (fst (process_query w q)) = 0 \<and>
         extracted_entities (fst (process_query w q)) = [] \<and>
         normalized_entities (fst (process_query w q)) = [] \<and>
         (\<exists>sql_text. fst (generate_sql (w_generator w) 0 0) = Some sql_text \<and> sql_text \<noteq> [] \<and>
            log_generated_sql (snd (process_query w q)) = Some sql_text \<and>
            log_execution_time_ms (snd (process_query w q)) =
              (if execution_failed w then snd (execute_sql (w_db w) sql_text) else 0)) \<and>
         length (entities_dict (nq_extracted_entities
           (normalize_query (w_list_set w) (w_score w) SIMILARITY_THRESHOLD
              (w_fetched_by_extractor w) (w_fetched_by_normalizer w) q))) = 9"
  using assms
  by (auto simp: process_query_def validation_rejected_def execution_failed_def
      failed_response_def log_query_def entities_dict_def Let_def
      split: option.splits prod.splits if_splits)

lemma generate_members: "generate_sql members_generator 0 0 = (Some ''SELECT * FROM members'', 1)"
  by code_simp

theorem process_query_failure_drops_values_witness:
  "execution_failed (world_of members_generator raising_store) \<and>
   generated_sql (fst (process_query (world_of members_generator raising_store) ''Who joined in 2015?'')) = None \<and>
   execution_time_ms (fst (process_query (world_of members_generator raising_store) ''Who joined in 2015?'')) = 0 \<and>
   total_time_ms (fst (process_query (world_of members_generator raising_store) ''Who joined in 2015?'')) = 0 \<and>
   extracted_entities (fst (process_query (world_of members_generator raising_store) ''Who joined in 2015?'')) = [] \<and>
   normalized_entities (fst (process_query (world_of members_generator raising_store) ''Who joined in 2015?'')) = [] \<and>
   log_generated_sql (snd (process_query (world_of members_generator raising_store) ''Who joined in 2015?'')) =
     Some ''SELECT * FROM members'' \<and>
   log_execution_time_ms (snd (process_query (world_of members_generator raising_store) ''Who joined in 2015?'')) = 12"
proof -
  have ex: "execution_failed (world_of members_generator raising_store)"
    by (simp add: execution_failed_def world_of_def generate_members validate_sql_def execute_sql_def
        raising_store_def)
  then have "validation_rejected (world_of members_generator raising_store) \<or>
      execution_failed (world_of members_generator raising_store)"
    by simp
  from process_query_failure_drops_values [OF this, of "''Who joined in 2015?''"] ex
  show ?thesis
    by (simp add: world_of_def generate_members execute_sql_def raising_store_def)
qed

section \<open>Normalizing institutes: the abbreviation table\<close>

lemma abbreviation_keys_lower: "list_all (\<lambda>(k, v). lower k = k) INSTITUTE_ABBREVIATIONS"
  by code_simp

lemma abbreviation_keys_distinct: "distinct (map fst INSTITUTE_ABBREVIATIONS)"
  by code_simp

lemma abbreviation_key_lower:
  assumes "map_of INSTITUTE_ABBREVIATIONS k = Some v"
  shows "lower k = k"
proof -
  have "(k, v) \<in> set INSTITUTE_ABBREVIATIONS"
    using assms by (rule map_of_SomeD)
  then show ?thesis
    using abbreviation_keys_lower by (auto simp: list_all_iff)
qed

lemma list_set_distinct: "is_list_set list_set \<Longrightarrow> distinct (list_set xs)"
  unfolding is_list_set_def by blast

lemma list_set_set: "is_list_set list_set \<Longrightarrow> set (list_set xs) = set xs"
  unfolding is_list_set_def by blast

lemma list_set_empty: "is_list_set list_set \<Longrightarrow> list_set [] = []"
  using list_set_set [of list_set "[]"] by simp

lemma list_set_single:
  assumes "is_list_set list_set"
  shows "list_set [v] = [v]"
proof -
  have d: "distinct (list_set [v])" and s: "set (list_set [v]) = {v}"
    using list_set_distinct [OF assms, of "[v]"] list_set_set [OF assms, of "[v]"] by simp_all
  show ?thesis
  proof (cases "list_set [v]")
    case Nil
    then show ?thesis using s by simp
  next
    case (Cons a as)
    have "a = v" using s Cons by auto
    moreover have "as = []"
    proof (cases as)
      case Nil
      then show ?thesis .
    next
      case (Cons b bs)
      then have "b = v" using s \<open>list_set [v] = a # as\<close> by auto
      then show ?thesis using d \<open>list_set [v] = a # as\<close> \<open>a = v\<close> Cons by simp
    qed
    ultimately show ?thesis using Cons by simp
  qed
qed

lemma is_list_set_remdups: "is_list_set remdups"
  by (simp add: is_list_set_def)

text \<open>
  C2. For every key \<^verbatim>\<open>k\<close> of the abbreviation table, with canonical name \<^verbatim>\<open>v\<close>, normalizing the
  institute inputs \<^verbatim>\<open>[k]\<close> yields exactly the map \<^verbatim>\<open>{k: [v]}\<close>, whatever the vocabulary, the
  scorer and the threshold are: no fuzzy match enters the result.
\<close>

theorem normalize_institutes_abbreviation:
  assumes "is_list_set list_set" and "map_of INSTITUTE_ABBREVIATIONS k = Some v"
  shows "normalize_institutes list_set score threshold fetched [k] = [(k, [v])]"
  using assms abbreviation_key_lower [OF assms(2)] list_set_single [OF assms(1), of v]
  by (simp add: normalize_institutes_def Let_def)

lemma lookup_iit_b:
  "map_of INSTITUTE_ABBREVIATIONS ''iit b'' = Some ''Indian Institute of Technology, Bombay''"
  by code_simp

theorem normalize_institutes_abbreviation_witness:
  "is_list_set remdups \<and>
   map_of INSTITUTE_ABBREVIATIONS ''iit b'' = Some ''Indian Institute of Technology, Bombay'' \<and>
   normalize_institutes remdups containment_score SIMILARITY_THRESHOLD None [''iit b''] =
     [(''iit b'', [''Indian Institute of Technology, Bombay''])]"
  using normalize_institutes_abbreviation [OF is_list_set_remdups lookup_iit_b]
    is_list_set_remdups lookup_iit_b
  by simp

section \<open>Hints\<close>

lemma build_hints_none:
  assumes "\<forall>t \<in> set entity_types. map_of normalized t = None \<or> map_of normalized t = Some []"
  shows "build_hints extracted normalized = no_entities_found"
proof -
  have "concat (map (\<lambda>entity_type.
          (case map_of normalized entity_type of
             None \<Rightarrow> []
           | Some m \<Rightarrow>
               if m \<noteq> []
               then map (\<lambda>(original, matches).
                      title entity_type @ '': '' @ original @ '' '' @ arrow @ '' '' @ join '', '' matches) m
               else [])) entity_types) = []"
    using assms by (auto split: option.splits)
  then show ?thesis
    by (simp add: build_hints_def)
qed

lemma update_not_empty: "AList.update k v al \<noteq> []"
  by (cases al) auto

lemma normalize_years_not_empty: "ys \<noteq> [] \<Longrightarrow> normalize_years ys \<noteq> []"
proof (cases ys rule: rev_cases)
  case Nil
  assume "ys \<noteq> []"
  with Nil show ?thesis by simp
next
  case (snoc zs z)
  then show ?thesis
    by (simp add: normalize_years_def update_not_empty)
qed

lemma normalize_all_years:
  "years extracted \<noteq> [] \<Longrightarrow>
   map_of (normalize_all list_set score threshold fetch extracted) ''years'' =
     Some (normalize_years (years extracted))"
  by (simp add: normalize_all_def map_add_def)

text \<open>
  C10. For every query whose extracted years are not empty and whose eight string
  categories are absent from the normalized entities or empty there, \<^verbatim>\<open>normalize_query\<close>
  returns the hint text \<^verbatim>\<open>No entities found\<close>, although the extracted years and the
  normalized entities are not empty: the normalized entities hold the key \<^verbatim>\<open>years\<close> with a
  non-empty map, which the hint builder never looks at.
\<close>

theorem normalize_query_years_only:
  assumes "years (extract_entities list_set fetched q) \<noteq> []"
    and "\<forall>t \<in> set entity_types.
           map_of (normalize_all list_set score threshold fetch (extract_entities list_set fetched q)) t = None \<or>
           map_of (normalize_all list_set score threshold fetch (extract_entities list_set fetched q)) t = Some []"
  shows "normalization_hints (normalize_query list_set score threshold fetched fetch q) = ''No entities found'' \<and>
         years (nq_extracted_entities (normalize_query list_set score threshold fetched fetch q)) \<noteq> [] \<and>
         nq_normalized_entities (normalize_query list_set score threshold fetched fetch q) \<noteq> [] \<and>
         (\<exists>m. map_of (nq_normalized_entities (normalize_query list_set score threshold fetched fetch q)) ''years''
                = Some m \<and> m \<noteq> [])"
proof -
  let ?e = "extract_entities list_set fetched q"
  let ?n = "normalize_all list_set score threshold fetch ?e"
  have hints: "build_hints ?e ?n = no_entities_found"
    using assms(2) by (rule build_hints_none)
  have ys: "map_of ?n ''years'' = Some (normalize_years (years ?e))"
    using assms(1) by (rule normalize_all_years)
  have ne: "normalize_years (years ?e) \<noteq> []"
    using assms(1) by (rule normalize_years_not_empty)
  have "?n \<noteq> []"
    using ys by auto
  then show ?thesis
    using hints ys ne assms(1) by (simp add: normalize_query_def Let_def no_entities_found_def)
qed

lemma years_only_example:
  "years (extract_entities remdups None ''Who joined in 2015 and 2015?'') \<noteq> []"
  by code_simp

lemma years_only_example_categories:
  "\<forall>t \<in> set entity_types.
     map_of (normalize_all remdups containment_score SIMILARITY_THRESHOLD (\<lambda>key. None)
       (extract_entities remdups None ''Who joined in 2015 and 2015?'')) t = None \<or>
     map_of (normalize_all remdups containment_score SIMILARITY_THRESHOLD (\<lambda>key. None)
       (extract_entities remdups None ''Who joined in 2015 and 2015?'')) t = Some []"
  by code_simp

theorem normalize_query_years_only_witness:
  "years (extract_entities remdups None ''Who joined in 2015 and 2015?'') \<noteq> [] \<and>
   normalization_hints (normalize_query remdups containment_score SIMILARITY_THRESHOLD None (\<lambda>key. None)
     ''Who joined in 2015 and 2015?'') = ''No entities found'' \<and>
   nq_normalized_entities (normalize_query remdups containment_score SIMILARITY_THRESHOLD None (\<lambda>key. None)
     ''Who joined in 2015 and 2015?'') \<noteq> []"
  using normalize_query_years_only [OF years_only_example years_only_example_categories] years_only_example
  by simp

section \<open>Extraction: years and the vocabulary\<close>






lemma extract_entities_years:
  "years (extract_entities list_set fetched q) = map py_int (findall_years None q)"
  by (simp add: extract_entities_def Let_def)

















lemma years_example_tokens:
  "filter (year_token_at ''From 1999 to 2015 and 2015, not 20151 or x2015'')
     [0..<length ''From 1999 to 2015 and 2015, not 20151 or x2015''] = [5, 13, 22]"
  by code_simp


lemma mentioned_empty_context: "mentioned (get_db_context None) key query_lower = []"
  by (simp add: mentioned_def get_db_context_def ctx_get_def)

text \<open>
  C8. When the read of the vocabulary raises, \<^verbatim>\<open>extract_entities\<close> still returns its
  nine-key result, the same as with an empty vocabulary context: nothing is drawn from the
  vocabulary in any of the eight categories, seven lists are empty, the institutes are
  exactly the abbreviation keys that occur in the lower-cased query, and the years are the
  year matches.
\<close>

theorem extract_entities_without_vocabulary:
  assumes "is_list_set list_set"
  shows "extract_entities list_set None q = extract_entities list_set (Some []) q \<and>
         (\<forall>key. mentioned (get_db_context None) key (lower q) = []) \<and>
         companies (extract_entities list_set None q) = [] \<and>
         roles (extract_entities list_set None q) = [] \<and>
         cities (extract_entities list_set None q) = [] \<and>
         states (extract_entities list_set None q) = [] \<and>
         countries (extract_entities list_set None q) = [] \<and>
         degrees (extract_entities list_set None q) = [] \<and>
         domains (extract_entities list_set None q) = [] \<and>
         distinct (institutes (extract_entities list_set None q)) \<and>
         set (institutes (extract_entities list_set None q)) =
           {k \<in> set (map fst INSTITUTE_ABBREVIATIONS). py_in k (lower q)} \<and>
         years (extract_entities list_set None q) = map py_int (findall_years None q)"
proof -
  have same: "extract_entities list_set None q = extract_entities list_set (Some []) q"
    by (simp add: extract_entities_def get_db_context_def)
  have none: "\<forall>key. mentioned (get_db_context None) key (lower q) = []"
    by (simp add: mentioned_empty_context)
  have seven: "companies (extract_entities list_set None q) = []"
    "roles (extract_entities list_set None q) = []"
    "cities (extract_entities list_set None q) = []"
    "states (extract_entities list_set None q) = []"
    "countries (extract_entities list_set None q) = []"
    "degrees (extract_entities list_set None q) = []"
    "domains (extract_entities list_set None q) = []"
    using list_set_empty [OF assms]
    by (simp_all add: extract_entities_def Let_def mentioned_empty_context)
  have inst: "institutes (extract_entities list_set None q) =
      list_set (filter (\<lambda>abbrev. py_in abbrev (lower q)) (map fst INSTITUTE_ABBREVIATIONS))"
    by (simp add: extract_entities_def Let_def mentioned_empty_context)
  have d: "distinct (institutes (extract_entities list_set None q))"
    unfolding inst by (rule list_set_distinct [OF assms])
  have s: "set (institutes (extract_entities list_set None q)) =
           {k \<in> set (map fst INSTITUTE_ABBREVIATIONS). py_in k (lower q)}"
    unfolding inst by (simp only: list_set_set [OF assms] set_filter)
  note ys = extract_entities_years [of list_set None q]
  show ?thesis
    by (intro conjI) (fact same none seven d s ys)+
qed

lemma extract_iit_b:
  "extract_entities remdups None ''Who studied at IIT B in 2015?'' =
     \<lparr> companies = [], roles = [], cities = [], states = [], countries = [],
       institutes = [''iit b''], degrees = [], domains = [], years = [2015] \<rparr>"
  by code_simp

theorem extract_entities_without_vocabulary_witness:
  "is_list_set remdups \<and>
   extract_entities remdups None ''Who studied at IIT B in 2015?'' =
     extract_entities remdups (Some []) ''Who studied at IIT B in 2015?'' \<and>
   companies (extract_entities remdups None ''Who studied at IIT B in 2015?'') = [] \<and>
   institutes (extract_entities remdups None ''Who studied at IIT B in 2015?'') = [''iit b''] \<and>
   years (extract_entities remdups None ''Who studied at IIT B in 2015?'') = [2015]"
proof -
  note t = extract_entities_without_vocabulary [OF is_list_set_remdups, of "''Who studied at IIT B in 2015?''"]
  have "extract_entities remdups None ''Who studied at IIT B in 2015?'' =
     extract_entities remdups (Some []) ''Who studied at IIT B in 2015?''"
    using t by (elim conjE)
  moreover have "companies (extract_entities remdups None ''Who studied at IIT B in 2015?'') = []"
    using t by (elim conjE)
  moreover have "institutes (extract_entities remdups None ''Who studied at IIT B in 2015?'') = [''iit b'']"
    by (simp only: extract_iit_b entities.select_convs)
  moreover have "years (extract_entities remdups None ''Who studied at IIT B in 2015?'') = [2015]"
    by (simp only: extract_iit_b entities.select_convs)
  ultimately show ?thesis
    using is_list_set_remdups by (intro conjI)
qed

section \<open>Approximate matching: what the result holds\<close>

lemma lower_char_idem: "lower_char (lower_char c) = lower_char c"
proof (cases "is_upper c")
  case False
  then show ?thesis by (simp add: lower_char_def)
next
  case True
  then have "of_char (char_of ((of_char c :: nat) + 32)) = (of_char c :: nat) + 32"
    by (simp add: is_upper_def)
  then have "\<not> is_upper (char_of ((of_char c :: nat) + 32))"
    using True by (simp add: is_upper_def)
  then show ?thesis
    using True by (simp add: lower_char_def)
qed

lemma lower_idem: "lower (lower s) = lower s"
  by (simp add: lower_def lower_char_idem)

lemma restore_casing:
  assumes "v \<in> set dbv"
  shows "\<exists>w \<in> set dbv. map_of (rev (map (\<lambda>v. (lower v, v)) dbv)) (lower v) = Some w \<and> lower w = lower v"
proof -
  have "(lower v, v) \<in> set (rev (map (\<lambda>v. (lower v, v)) dbv))"
    using assms by auto
  then obtain w where w: "map_of (rev (map (\<lambda>v. (lower v, v)) dbv)) (lower v) = Some w"
    using weak_map_of_SomeI by fastforce
  then have "(lower v, w) \<in> set (rev (map (\<lambda>v. (lower v, v)) dbv))"
    by (rule map_of_SomeD)
  then have "w \<in> set dbv \<and> lower w = lower v"
    by auto
  then show ?thesis
    using w by blast
qed


lemma set_process_extract_all:
  assumes "length choices \<le> limit"
  shows "set (process_extract score query choices limit) = (\<lambda>choice. (choice, score query choice)) ` set choices"
  using assms by (simp add: process_extract_def)


lemma match_entity_set:
  assumes "is_list_set list_set"
  shows "set (match_entity list_set score threshold u vs) =
    (if u = [] then {}
     else (\<lambda>(m, s). case map_of (rev (map (\<lambda>v. (lower v, v)) (filter (\<lambda>v. v \<noteq> []) vs))) (lower m) of
                        None \<Rightarrow> m | Some original \<Rightarrow> original) `
          {(m, s) \<in> set (process_extract score (lower u) (map lower (filter (\<lambda>v. v \<noteq> []) vs)) 10).
             threshold \<le> s})"
proof (cases "u = [] \<or> vs = [] \<or> filter (\<lambda>v. v \<noteq> []) vs = []")
  case True
  then have "match_entity list_set score threshold u vs = []"
    by (auto simp: match_entity_def Let_def)
  moreover have "filter (\<lambda>v. v \<noteq> []) vs = [] \<Longrightarrow>
      process_extract score (lower u) (map lower (filter (\<lambda>v. v \<noteq> []) vs)) 10 = []"
    by (simp add: process_extract_def)
  ultimately show ?thesis
    using True by auto
next
  case False
  then show ?thesis
    by (auto simp: match_entity_def Let_def list_set_set [OF assms])
qed




lemma match_entity_ranked:
  assumes "is_list_set list_set" and "u \<noteq> []" and "v \<in> set vs" and "v \<noteq> []"
    and "(lower v, score (lower u) (lower v)) \<in>
           set (process_extract score (lower u) (map lower (filter (\<lambda>v. v \<noteq> []) vs)) 10)"
    and "threshold \<le> score (lower u) (lower v)"
  shows "\<exists>w \<in> set (match_entity list_set score threshold u vs). lower w = lower v"
proof -
  let ?dbv = "filter (\<lambda>v. v \<noteq> []) vs"
  have "v \<in> set ?dbv"
    using assms(3,4) by simp
  from restore_casing [OF this] obtain w where w: "w \<in> set ?dbv"
    "map_of (rev (map (\<lambda>v. (lower v, v)) ?dbv)) (lower v) = Some w" "lower w = lower v"
    by blast
  let ?restore = "\<lambda>(m, s). case map_of (rev (map (\<lambda>v. (lower v, v)) ?dbv)) (lower m) of
                        None \<Rightarrow> m | Some original \<Rightarrow> original"
  let ?kept = "{(m, s) \<in> set (process_extract score (lower u) (map lower ?dbv) 10). threshold \<le> s}"
  have kept: "(lower v, score (lower u) (lower v)) \<in> ?kept"
    using assms(5,6) by simp
  have restored: "w = ?restore (lower v, score (lower u) (lower v))"
    using w(2) by (simp add: lower_idem)
  have "w \<in> ?restore ` ?kept"
    using restored kept by (rule image_eqI)
  then have "w \<in> set (match_entity list_set score threshold u vs)"
    unfolding match_entity_set [OF assms(1)] using assms(2) by simp
  then show ?thesis
    using w(3) by blast
qed

lemma match_entity_complete:
  assumes "is_list_set list_set" and "u \<noteq> []" and "length (filter (\<lambda>v. v \<noteq> []) vs) \<le> 10"
    and "v \<in> set vs" and "v \<noteq> []" and "threshold \<le> score (lower u) (lower v)"
  shows "\<exists>w \<in> set (match_entity list_set score threshold u vs). lower w = lower v"
proof -
  have m: "(lower v, score (lower u) (lower v)) \<in>
           set (process_extract score (lower u) (map lower (filter (\<lambda>v. v \<noteq> []) vs)) 10)"
    using assms(3,4,5) by (simp add: set_process_extract_all)
  show ?thesis
    by (rule match_entity_ranked [OF assms(1,2,4,5) m assms(6)])
qed



lemma is_list_set_reversed: "is_list_set reversed_set"
  by (simp add: is_list_set_def reversed_set_def)




lemma boundary_example:
  "match_entity remdups boundary_score SIMILARITY_THRESHOLD ''x'' [''Alpha'', ''Beta''] = [''Alpha'']"
  by code_simp

lemma engineer_example:
  "match_entity remdups containment_score SIMILARITY_THRESHOLD ''engineer'' engineer_roles =
     [''Software Engineer'', ''Data Engineer'', ''Test Engineer'', ''Site Reliability Engineer'',
      ''Hardware Engineer'', ''QA Engineer'', ''DevOps Engineer'', ''Sales Engineer'',
      ''Security Engineer'', ''Network Engineer'']"
  by code_simp







section \<open>Normalization: the place of the original input\<close>

lemma companies_duplicate:
  "normalize_companies remdups containment_score SIMILARITY_THRESHOLD
     (Some [(''companies'', [''Amazon''])]) [''Amazon''] = [(''Amazon'', [''Amazon'', ''Amazon''])]"
  by code_simp

lemma institutes_reversed:
  "map_of INSTITUTE_ABBREVIATIONS (lower ''Stanford Uni'') = None \<and>
   normalize_institutes reversed_set containment_score SIMILARITY_THRESHOLD
     (Some [(''institutes'', [''Stanford University''])]) [''Stanford Uni''] =
     [(''Stanford Uni'', [''Stanford University'', ''Stanford Uni''])]"
  by code_simp

text \<open>
  C4 at two inputs. The company \<^verbatim>\<open>Amazon\<close>, itself a vocabulary value, is normalized to the
  list \<^verbatim>\<open>[Amazon, Amazon]\<close>: the original comes first, the duplicate stays. The institute
  \<^verbatim>\<open>Stanford Uni\<close>, not an abbreviation key, is normalized through \<^verbatim>\<open>list(set(matches))\<close>:
  under a set order that reverses, the fuzzy match comes before the original.
\<close>

theorem normalize_original_first_fails:
  "normalize_companies remdups containment_score SIMILARITY_THRESHOLD
     (Some [(''companies'', [''Amazon''])]) [''Amazon''] = [(''Amazon'', [''Amazon'', ''Amazon''])] \<and>
   is_list_set reversed_set \<and>
   map_of INSTITUTE_ABBREVIATIONS (lower ''Stanford Uni'') = None \<and>
   normalize_institutes reversed_set containment_score SIMILARITY_THRESHOLD
     (Some [(''institutes'', [''Stanford University''])]) [''Stanford Uni''] =
     [(''Stanford Uni'', [''Stanford University'', ''Stanford Uni''])]"
  using companies_duplicate is_list_set_reversed institutes_reversed by (intro conjI) blast+

end
